theory Spec2Isabelle
  imports Main "HOL-Library.Word"
begin

unbundle bit_operations_syntax

section \<open>Machine types of the Solaris/SPARC atomic layer\<close>

text \<open>
  The operand types of \<^verbatim>\<open>atomic_solaris_sparc.hpp\<close>. The Java integer types have their
  fixed widths. \<^verbatim>\<open>intptr_t\<close> and \<^verbatim>\<open>void*\<close> are 64 bits wide: the primitives the file
  declares for \<^verbatim>\<open>intptr_t\<close> are \<^verbatim>\<open>_Atomic_swap64\<close>, \<^verbatim>\<open>_Atomic_cas64\<close> and
  \<^verbatim>\<open>_Atomic_add64\<close>, and the \<^verbatim>\<open>jlong\<close> compare-and-swap passes its operands through
  \<^verbatim>\<open>intptr_t\<close>. The C type \<^verbatim>\<open>int\<close> of the literals \<^verbatim>\<open>1\<close> and \<^verbatim>\<open>-1\<close> is 32 bits wide.
\<close>

type_synonym jbyte = "8 word"
type_synonym jshort = "16 word"
type_synonym jint = "32 word"
type_synonym jlong = "64 word"
type_synonym intptr_t = "64 word"
type_synonym c_int = "32 word"

text \<open>A typed pointer \<^verbatim>\<open>T*\<close> is the address it holds; a cast between pointer types keeps it.\<close>

type_synonym addr = "64 word"

text \<open>
  A \<^verbatim>\<open>void*\<close> value. The cast \<^verbatim>\<open>(intptr_t)p\<close> is \<open>ptr_bits p\<close>, the cast \<^verbatim>\<open>(void*)i\<close> is
  \<open>VoidPtr i\<close>, and the cast \<^verbatim>\<open>(volatile intptr_t*)dest\<close> of a \<^verbatim>\<open>void*\<close> location is the
  address \<open>ptr_bits dest\<close>.
\<close>

datatype void_ptr = VoidPtr (ptr_bits: intptr_t)

text \<open>The integral conversions the calls of the file perform.\<close>

definition int_to_intptr :: "c_int \<Rightarrow> intptr_t" where
  "int_to_intptr i = scast i"

definition jlong_to_intptr :: "jlong \<Rightarrow> intptr_t" where
  "jlong_to_intptr v = scast v"

definition intptr_to_jlong :: "intptr_t \<Rightarrow> jlong" where
  "intptr_to_jlong v = scast v"

section \<open>Memory\<close>

text \<open>
  Memory is byte addressed, and SPARC is big-endian: the most significant byte of a value
  lies at the lowest address. \<open>byte_of v k\<close> is the byte of \<open>v\<close> with weight \<open>2 ^ (8 * k)\<close>,
  \<open>byte_at b k\<close> puts a byte back at that weight.
\<close>

type_synonym memory = "addr \<Rightarrow> 8 word"

definition byte_of :: "'a::len word \<Rightarrow> nat \<Rightarrow> 8 word" where
  "byte_of v k = ucast (drop_bit (8 * k) v)"

definition byte_at :: "8 word \<Rightarrow> nat \<Rightarrow> 'a::len word" where
  "byte_at b k = push_bit (8 * k) (ucast b)"

text \<open>Reading \<^verbatim>\<open>*p\<close> and writing \<^verbatim>\<open>*p = v\<close> at each operand width.\<close>

definition deref8 :: "addr \<Rightarrow> memory \<Rightarrow> jbyte" where
  "deref8 a m = m a"

definition assign8 :: "jbyte \<Rightarrow> addr \<Rightarrow> memory \<Rightarrow> memory" where
  "assign8 v a m = m(a := v)"

definition deref16 :: "addr \<Rightarrow> memory \<Rightarrow> jshort" where
  "deref16 a m = byte_at (m a) 1 OR byte_at (m (a + 1)) 0"

definition assign16 :: "jshort \<Rightarrow> addr \<Rightarrow> memory \<Rightarrow> memory" where
  "assign16 v a m = m(a := byte_of v 1, a + 1 := byte_of v 0)"

definition deref32 :: "addr \<Rightarrow> memory \<Rightarrow> jint" where
  "deref32 a m =
     byte_at (m a) 3 OR byte_at (m (a + 1)) 2 OR byte_at (m (a + 2)) 1 OR byte_at (m (a + 3)) 0"

definition assign32 :: "jint \<Rightarrow> addr \<Rightarrow> memory \<Rightarrow> memory" where
  "assign32 v a m =
     m(a := byte_of v 3, a + 1 := byte_of v 2, a + 2 := byte_of v 1, a + 3 := byte_of v 0)"

definition deref64 :: "addr \<Rightarrow> memory \<Rightarrow> jlong" where
  "deref64 a m =
     byte_at (m a) 7 OR byte_at (m (a + 1)) 6 OR byte_at (m (a + 2)) 5 OR byte_at (m (a + 3)) 4 OR
     byte_at (m (a + 4)) 3 OR byte_at (m (a + 5)) 2 OR byte_at (m (a + 6)) 1 OR byte_at (m (a + 7)) 0"

definition assign64 :: "jlong \<Rightarrow> addr \<Rightarrow> memory \<Rightarrow> memory" where
  "assign64 v a m =
     m(a := byte_of v 7, a + 1 := byte_of v 6, a + 2 := byte_of v 5, a + 3 := byte_of v 4,
       a + 4 := byte_of v 3, a + 5 := byte_of v 2, a + 6 := byte_of v 1, a + 7 := byte_of v 0)"

text \<open>A pointer object in memory is the 64 bits of the address it holds.\<close>

definition deref_ptr :: "addr \<Rightarrow> memory \<Rightarrow> void_ptr" where
  "deref_ptr a m = VoidPtr (deref64 a m)"

definition assign_ptr :: "void_ptr \<Rightarrow> addr \<Rightarrow> memory \<Rightarrow> memory" where
  "assign_ptr p a m = assign64 (ptr_bits p) a m"

text \<open>The memory in which every byte is zero.\<close>

definition zero_memory :: memory where
  "zero_memory = (\<lambda>_. 0)"

section \<open>The hardware primitives\<close>

text \<open>
  The seven \<^verbatim>\<open>extern "C"\<close> entry points of \<^verbatim>\<open>solaris_sparc.il\<close> that the file declares
  (\<^verbatim>\<open>_Atomic_swap32\<close> to \<^verbatim>\<open>_Atomic_add64\<close>; the leading underscore is dropped). The operations
  below take them as a parameter: each is a function of its arguments and the memory that
  returns its result and the memory it leaves.
\<close>

record hw_atomics =
  Atomic_swap32 :: "jint \<Rightarrow> addr \<Rightarrow> memory \<Rightarrow> jint \<times> memory"
  Atomic_swap64 :: "intptr_t \<Rightarrow> addr \<Rightarrow> memory \<Rightarrow> intptr_t \<times> memory"
  Atomic_cas32 :: "jint \<Rightarrow> addr \<Rightarrow> jint \<Rightarrow> memory \<Rightarrow> jint \<times> memory"
  Atomic_cas64 :: "intptr_t \<Rightarrow> addr \<Rightarrow> intptr_t \<Rightarrow> memory \<Rightarrow> intptr_t \<times> memory"
  Atomic_casl :: "jlong \<Rightarrow> addr \<Rightarrow> jlong \<Rightarrow> memory \<Rightarrow> jlong \<times> memory"
  Atomic_add32 :: "jint \<Rightarrow> addr \<Rightarrow> memory \<Rightarrow> jint \<times> memory"
  Atomic_add64 :: "intptr_t \<Rightarrow> addr \<Rightarrow> memory \<Rightarrow> intptr_t \<times> memory"

section \<open>The operations of class Atomic\<close>

text \<open>
  One definition for each inline function of the file (a caller after the function it
  calls). An overloaded name carries the operand type as a suffix, and \<open>_volatile\<close> marks the overload
  on a volatile destination. A \<^verbatim>\<open>void\<close> function returns the memory it leaves; the others
  return their result and the memory.
\<close>

definition store_jbyte :: "jbyte \<Rightarrow> addr \<Rightarrow> memory \<Rightarrow> memory" where
  "store_jbyte store_value dest m = assign8 store_value dest m"

definition store_jshort :: "jshort \<Rightarrow> addr \<Rightarrow> memory \<Rightarrow> memory" where
  "store_jshort store_value dest m = assign16 store_value dest m"

definition store_jint :: "jint \<Rightarrow> addr \<Rightarrow> memory \<Rightarrow> memory" where
  "store_jint store_value dest m = assign32 store_value dest m"

definition store_ptr_intptr :: "intptr_t \<Rightarrow> addr \<Rightarrow> memory \<Rightarrow> memory" where
  "store_ptr_intptr store_value dest m = assign64 store_value dest m"

definition store_ptr_void :: "void_ptr \<Rightarrow> void_ptr \<Rightarrow> memory \<Rightarrow> memory" where
  "store_ptr_void store_value dest m = assign_ptr store_value (ptr_bits dest) m"

definition store_jbyte_volatile :: "jbyte \<Rightarrow> addr \<Rightarrow> memory \<Rightarrow> memory" where
  "store_jbyte_volatile store_value dest m = assign8 store_value dest m"

definition store_jshort_volatile :: "jshort \<Rightarrow> addr \<Rightarrow> memory \<Rightarrow> memory" where
  "store_jshort_volatile store_value dest m = assign16 store_value dest m"

definition store_jint_volatile :: "jint \<Rightarrow> addr \<Rightarrow> memory \<Rightarrow> memory" where
  "store_jint_volatile store_value dest m = assign32 store_value dest m"

definition store_ptr_intptr_volatile :: "intptr_t \<Rightarrow> addr \<Rightarrow> memory \<Rightarrow> memory" where
  "store_ptr_intptr_volatile store_value dest m = assign64 store_value dest m"

definition store_ptr_void_volatile :: "void_ptr \<Rightarrow> void_ptr \<Rightarrow> memory \<Rightarrow> memory" where
  "store_ptr_void_volatile store_value dest m = assign_ptr store_value (ptr_bits dest) m"

definition add :: "jint \<Rightarrow> addr \<Rightarrow> hw_atomics \<Rightarrow> memory \<Rightarrow> jint \<times> memory" where
  "add add_value dest hw m = Atomic_add32 hw add_value dest m"

definition add_ptr_intptr :: "intptr_t \<Rightarrow> addr \<Rightarrow> hw_atomics \<Rightarrow> memory \<Rightarrow> intptr_t \<times> memory" where
  "add_ptr_intptr add_value dest hw m = Atomic_add64 hw add_value dest m"

definition add_ptr_void :: "intptr_t \<Rightarrow> void_ptr \<Rightarrow> hw_atomics \<Rightarrow> memory \<Rightarrow> void_ptr \<times> memory" where
  "add_ptr_void add_value dest hw m =
     (case add_ptr_intptr add_value (ptr_bits dest) hw m of (r, m') \<Rightarrow> (VoidPtr r, m'))"

definition inc :: "addr \<Rightarrow> hw_atomics \<Rightarrow> memory \<Rightarrow> memory" where
  "inc dest hw m = snd (add 1 dest hw m)"

definition inc_ptr_intptr :: "addr \<Rightarrow> hw_atomics \<Rightarrow> memory \<Rightarrow> memory" where
  "inc_ptr_intptr dest hw m = snd (add_ptr_intptr (int_to_intptr 1) dest hw m)"

definition inc_ptr_void :: "void_ptr \<Rightarrow> hw_atomics \<Rightarrow> memory \<Rightarrow> memory" where
  "inc_ptr_void dest hw m = snd (add_ptr_void (int_to_intptr 1) dest hw m)"

definition dec :: "addr \<Rightarrow> hw_atomics \<Rightarrow> memory \<Rightarrow> memory" where
  "dec dest hw m = snd (add (- 1) dest hw m)"

definition dec_ptr_intptr :: "addr \<Rightarrow> hw_atomics \<Rightarrow> memory \<Rightarrow> memory" where
  "dec_ptr_intptr dest hw m = snd (add_ptr_intptr (int_to_intptr (- 1)) dest hw m)"

definition dec_ptr_void :: "void_ptr \<Rightarrow> hw_atomics \<Rightarrow> memory \<Rightarrow> memory" where
  "dec_ptr_void dest hw m = snd (add_ptr_void (int_to_intptr (- 1)) dest hw m)"

definition store_jlong :: "jlong \<Rightarrow> addr \<Rightarrow> memory \<Rightarrow> memory" where
  "store_jlong store_value dest m = assign64 store_value dest m"

definition store_jlong_volatile :: "jlong \<Rightarrow> addr \<Rightarrow> memory \<Rightarrow> memory" where
  "store_jlong_volatile store_value dest m = assign64 store_value dest m"

definition load :: "addr \<Rightarrow> memory \<Rightarrow> jlong" where
  "load src m = deref64 src m"

definition xchg :: "jint \<Rightarrow> addr \<Rightarrow> hw_atomics \<Rightarrow> memory \<Rightarrow> jint \<times> memory" where
  "xchg exchange_value dest hw m = Atomic_swap32 hw exchange_value dest m"

definition xchg_ptr_intptr :: "intptr_t \<Rightarrow> addr \<Rightarrow> hw_atomics \<Rightarrow> memory \<Rightarrow> intptr_t \<times> memory" where
  "xchg_ptr_intptr exchange_value dest hw m = Atomic_swap64 hw exchange_value dest m"

definition xchg_ptr_void :: "void_ptr \<Rightarrow> void_ptr \<Rightarrow> hw_atomics \<Rightarrow> memory \<Rightarrow> void_ptr \<times> memory" where
  "xchg_ptr_void exchange_value dest hw m =
     (case xchg_ptr_intptr (ptr_bits exchange_value) (ptr_bits dest) hw m of
        (r, m') \<Rightarrow> (VoidPtr r, m'))"

text \<open>
  The type \<^verbatim>\<open>cmpxchg_memory_order\<close> is declared outside the file; the operations are
  defined for any type \<open>'order\<close> of ordering hints.
\<close>

definition cmpxchg_jint ::
  "jint \<Rightarrow> addr \<Rightarrow> jint \<Rightarrow> 'order \<Rightarrow> hw_atomics \<Rightarrow> memory \<Rightarrow> jint \<times> memory" where
  "cmpxchg_jint exchange_value dest compare_value order hw m =
     Atomic_cas32 hw exchange_value dest compare_value m"

definition cmpxchg_jlong ::
  "jlong \<Rightarrow> addr \<Rightarrow> jlong \<Rightarrow> 'order \<Rightarrow> hw_atomics \<Rightarrow> memory \<Rightarrow> jlong \<times> memory" where
  "cmpxchg_jlong exchange_value dest compare_value order hw m =
     (case Atomic_cas64 hw (jlong_to_intptr exchange_value) dest (jlong_to_intptr compare_value) m of
        (r, m') \<Rightarrow> (intptr_to_jlong r, m'))"

definition cmpxchg_ptr_intptr ::
  "intptr_t \<Rightarrow> addr \<Rightarrow> intptr_t \<Rightarrow> 'order \<Rightarrow> hw_atomics \<Rightarrow> memory \<Rightarrow> intptr_t \<times> memory" where
  "cmpxchg_ptr_intptr exchange_value dest compare_value order hw m =
     Atomic_cas64 hw exchange_value dest compare_value m"

definition cmpxchg_ptr_void ::
  "void_ptr \<Rightarrow> void_ptr \<Rightarrow> void_ptr \<Rightarrow> 'order \<Rightarrow> hw_atomics \<Rightarrow> memory \<Rightarrow> void_ptr \<times> memory" where
  "cmpxchg_ptr_void exchange_value dest compare_value order hw m =
     (case cmpxchg_ptr_intptr (ptr_bits exchange_value) (ptr_bits dest) (ptr_bits compare_value)
             order hw m of
        (r, m') \<Rightarrow> (VoidPtr r, m'))"

section \<open>The primitives of solaris\_sparc.il\<close>

text \<open>
  Modelled from the spec: the bodies of \<^verbatim>\<open>_Atomic_swap32\<close> and \<^verbatim>\<open>_Atomic_swap64\<close> in
  \<^verbatim>\<open>solaris_sparc.il\<close>, of which the file has only the declarations. A swap takes the new
  value and the location, stores the new value and returns the previous one.
\<close>

definition il_swap32 :: "jint \<Rightarrow> addr \<Rightarrow> memory \<Rightarrow> jint \<times> memory" where
  "il_swap32 exchange_value dest m = (deref32 dest m, assign32 exchange_value dest m)"

definition il_swap64 :: "intptr_t \<Rightarrow> addr \<Rightarrow> memory \<Rightarrow> intptr_t \<times> memory" where
  "il_swap64 exchange_value dest m = (deref64 dest m, assign64 exchange_value dest m)"

text \<open>
  Modelled from the spec: the bodies of \<^verbatim>\<open>_Atomic_cas32\<close>, \<^verbatim>\<open>_Atomic_cas64\<close> and
  \<^verbatim>\<open>_Atomic_casl\<close> in \<^verbatim>\<open>solaris_sparc.il\<close>. A compare-and-swap writes the new value only
  when the current contents equal the expected value bit for bit, leaves the location
  unchanged otherwise, and returns the previous value in both cases.
\<close>

definition il_cas32 :: "jint \<Rightarrow> addr \<Rightarrow> jint \<Rightarrow> memory \<Rightarrow> jint \<times> memory" where
  "il_cas32 exchange_value dest compare_value m =
     (let old = deref32 dest m
      in (old, if old = compare_value then assign32 exchange_value dest m else m))"

definition il_cas64 :: "intptr_t \<Rightarrow> addr \<Rightarrow> intptr_t \<Rightarrow> memory \<Rightarrow> intptr_t \<times> memory" where
  "il_cas64 exchange_value dest compare_value m =
     (let old = deref64 dest m
      in (old, if old = compare_value then assign64 exchange_value dest m else m))"

definition il_casl :: "jlong \<Rightarrow> addr \<Rightarrow> jlong \<Rightarrow> memory \<Rightarrow> jlong \<times> memory" where
  "il_casl exchange_value dest compare_value m =
     (let old = deref64 dest m
      in (old, if old = compare_value then assign64 exchange_value dest m else m))"

text \<open>
  Modelled from the spec: the bodies of \<^verbatim>\<open>_Atomic_add32\<close> and \<^verbatim>\<open>_Atomic_add64\<close> in
  \<^verbatim>\<open>solaris_sparc.il\<close>. A fetch-add adds the delta to the value at the location, wrapping
  as the two's-complement hardware does, and returns the new value.
\<close>

definition il_add32 :: "jint \<Rightarrow> addr \<Rightarrow> memory \<Rightarrow> jint \<times> memory" where
  "il_add32 inc_value dest m =
     (let new = deref32 dest m + inc_value in (new, assign32 new dest m))"

definition il_add64 :: "intptr_t \<Rightarrow> addr \<Rightarrow> memory \<Rightarrow> intptr_t \<times> memory" where
  "il_add64 add_value dest m =
     (let new = deref64 dest m + add_value in (new, assign64 new dest m))"

definition solaris_sparc_il :: hw_atomics where
  "solaris_sparc_il =
     \<lparr>Atomic_swap32 = il_swap32, Atomic_swap64 = il_swap64,
      Atomic_cas32 = il_cas32, Atomic_cas64 = il_cas64, Atomic_casl = il_casl,
      Atomic_add32 = il_add32, Atomic_add64 = il_add64\<rparr>"

section \<open>Memory reads after writes\<close>

lemma bit_byte_at_byte_of:
  "bit (byte_at (byte_of (v::'a::len word) k) k :: 'a word) n \<longleftrightarrow>
     n < LENGTH('a) \<and> 8 * k \<le> n \<and> n < 8 * k + 8 \<and> bit v n"
  by (auto simp: byte_at_def byte_of_def bit_simps)

lemma deref8_assign8: "deref8 a (assign8 v a m) = v"
  by (simp add: deref8_def assign8_def)

lemma deref16_assign16: "deref16 a (assign16 v a m) = v"
proof (rule bit_word_eqI)
  fix n assume "n < LENGTH(16)"
  then show "bit (deref16 a (assign16 v a m)) n \<longleftrightarrow> bit v n"
    by (auto simp: deref16_def assign16_def bit_or_iff bit_byte_at_byte_of not_le)
qed

lemma deref32_assign32: "deref32 a (assign32 v a m) = v"
proof (rule bit_word_eqI)
  fix n assume "n < LENGTH(32)"
  then show "bit (deref32 a (assign32 v a m)) n \<longleftrightarrow> bit v n"
    by (auto simp: deref32_def assign32_def bit_or_iff bit_byte_at_byte_of not_le)
qed

lemma deref64_assign64: "deref64 a (assign64 v a m) = v"
proof (rule bit_word_eqI)
  fix n assume "n < LENGTH(64)"
  then show "bit (deref64 a (assign64 v a m)) n \<longleftrightarrow> bit v n"
    by (auto simp: deref64_def assign64_def bit_or_iff bit_byte_at_byte_of not_le)
qed

lemma deref_ptr_assign_ptr: "deref_ptr a (assign_ptr p a m) = p"
  by (simp add: deref_ptr_def assign_ptr_def deref64_assign64)

section \<open>The conversions and the primitives, unfolded\<close>

lemma solaris_sparc_il_sel:
  "Atomic_swap32 solaris_sparc_il = il_swap32"
  "Atomic_swap64 solaris_sparc_il = il_swap64"
  "Atomic_cas32 solaris_sparc_il = il_cas32"
  "Atomic_cas64 solaris_sparc_il = il_cas64"
  "Atomic_casl solaris_sparc_il = il_casl"
  "Atomic_add32 solaris_sparc_il = il_add32"
  "Atomic_add64 solaris_sparc_il = il_add64"
  by (simp_all add: solaris_sparc_il_def)

lemma scast_same_width [simp]: "jlong_to_intptr v = v" "intptr_to_jlong v = v"
  by (simp_all add: jlong_to_intptr_def intptr_to_jlong_def)

lemma int_to_intptr_literals: "int_to_intptr 1 = 1" "int_to_intptr (- 1) = - 1"
  by (simp_all add: int_to_intptr_def)

lemma cmpxchg_jint_il:
  "cmpxchg_jint N L V ord solaris_sparc_il m =
     (deref32 L m, if deref32 L m = V then assign32 N L m else m)"
  by (simp add: cmpxchg_jint_def solaris_sparc_il_sel il_cas32_def)

lemma cmpxchg_ptr_intptr_il:
  "cmpxchg_ptr_intptr N L V ord solaris_sparc_il m =
     (deref64 L m, if deref64 L m = V then assign64 N L m else m)"
  by (simp add: cmpxchg_ptr_intptr_def solaris_sparc_il_sel il_cas64_def)

lemma cmpxchg_jlong_il:
  "cmpxchg_jlong N L V ord solaris_sparc_il m =
     (deref64 L m, if deref64 L m = V then assign64 N L m else m)"
  by (simp add: cmpxchg_jlong_def solaris_sparc_il_sel il_cas64_def)

lemma cmpxchg_ptr_void_il:
  "cmpxchg_ptr_void N P V ord solaris_sparc_il m =
     (deref_ptr (ptr_bits P) m,
      if deref_ptr (ptr_bits P) m = V then assign_ptr N (ptr_bits P) m else m)"
  by (cases V) (simp add: cmpxchg_ptr_void_def cmpxchg_ptr_intptr_il deref_ptr_def assign_ptr_def)

lemma store_deref:
  "deref8 L (store_jbyte b L m) = b" "deref8 L (store_jbyte_volatile b L m) = b"
  "deref16 L (store_jshort s L m) = s" "deref16 L (store_jshort_volatile s L m) = s"
  "deref32 L (store_jint i L m) = i" "deref32 L (store_jint_volatile i L m) = i"
  "deref64 L (store_jlong l L m) = l" "deref64 L (store_jlong_volatile l L m) = l"
  "deref64 L (store_ptr_intptr l L m) = l" "deref64 L (store_ptr_intptr_volatile l L m) = l"
  "deref_ptr (ptr_bits P) (store_ptr_void p P m) = p"
  "deref_ptr (ptr_bits P) (store_ptr_void_volatile p P m) = p"
  by (simp_all add: store_jbyte_def store_jbyte_volatile_def store_jshort_def
      store_jshort_volatile_def store_jint_def store_jint_volatile_def store_jlong_def
      store_jlong_volatile_def store_ptr_intptr_def store_ptr_intptr_volatile_def
      store_ptr_void_def store_ptr_void_volatile_def deref8_assign8 deref16_assign16
      deref32_assign32 deref64_assign64 deref_ptr_assign_ptr)

lemma ptr_bits_deref_ptr: "ptr_bits (deref_ptr a m) = deref64 a m"
  by (simp add: deref_ptr_def)

lemma store_ptr_void_deref64:
  "deref64 (ptr_bits P) (store_ptr_void p P m) = ptr_bits p"
  "deref64 (ptr_bits P) (store_ptr_void_volatile p P m) = ptr_bits p"
  by (simp_all add: store_ptr_void_def store_ptr_void_volatile_def assign_ptr_def
      deref64_assign64)

lemma inc_dec_ptr_void_prim:
  "inc_ptr_void P hw m = snd (Atomic_add64 hw 1 (ptr_bits P) m)"
  "dec_ptr_void P hw m = snd (Atomic_add64 hw (- 1) (ptr_bits P) m)"
  by (simp_all add: inc_ptr_void_def dec_ptr_void_def int_to_intptr_literals add_ptr_void_def
      add_ptr_intptr_def split_def)

lemma add_il:
  "add D L solaris_sparc_il m = (deref32 L m + D, assign32 (deref32 L m + D) L m)"
  by (simp add: add_def solaris_sparc_il_sel il_add32_def Let_def)

lemma add_ptr_intptr_il:
  "add_ptr_intptr D L solaris_sparc_il m = (deref64 L m + D, assign64 (deref64 L m + D) L m)"
  by (simp add: add_ptr_intptr_def solaris_sparc_il_sel il_add64_def Let_def)

lemma add_ptr_void_il:
  "add_ptr_void D P solaris_sparc_il m =
     (VoidPtr (deref64 (ptr_bits P) m + D), assign64 (deref64 (ptr_bits P) m + D) (ptr_bits P) m)"
  by (simp add: add_ptr_void_def add_ptr_intptr_il)

lemma casl_update_sel:
  "Atomic_swap32 (hw\<lparr>Atomic_casl := f\<rparr>) = Atomic_swap32 hw"
  "Atomic_swap64 (hw\<lparr>Atomic_casl := f\<rparr>) = Atomic_swap64 hw"
  "Atomic_cas32 (hw\<lparr>Atomic_casl := f\<rparr>) = Atomic_cas32 hw"
  "Atomic_cas64 (hw\<lparr>Atomic_casl := f\<rparr>) = Atomic_cas64 hw"
  "Atomic_add32 (hw\<lparr>Atomic_casl := f\<rparr>) = Atomic_add32 hw"
  "Atomic_add64 (hw\<lparr>Atomic_casl := f\<rparr>) = Atomic_add64 hw"
  by simp_all

section \<open>The operations on the primitives of solaris\_sparc.il\<close>

text \<open>
  C1. With the primitives of \<^verbatim>\<open>solaris_sparc.il\<close>, for the 32-bit, the 64-bit, the
  pointer-width and the raw-pointer overload: when the location holds the expected value,
  \<^verbatim>\<open>cmpxchg\<close> returns that value and leaves the location holding the new value; when the
  contents differ from the expected value, it returns the contents and leaves the memory
  unchanged. The result is the prior value in both cases.
\<close>

theorem cmpxchg_returns_prior_contents:
  fixes ord :: 'order
  shows
    "(deref32 L m = Vi \<longrightarrow>
        fst (cmpxchg_jint Ni L Vi ord solaris_sparc_il m) = Vi \<and>
        deref32 L (snd (cmpxchg_jint Ni L Vi ord solaris_sparc_il m)) = Ni) \<and>
     (deref32 L m \<noteq> Vi \<longrightarrow>
        fst (cmpxchg_jint Ni L Vi ord solaris_sparc_il m) = deref32 L m \<and>
        snd (cmpxchg_jint Ni L Vi ord solaris_sparc_il m) = m) \<and>
     (deref64 L m = Vl \<longrightarrow>
        fst (cmpxchg_jlong Nl L Vl ord solaris_sparc_il m) = Vl \<and>
        deref64 L (snd (cmpxchg_jlong Nl L Vl ord solaris_sparc_il m)) = Nl) \<and>
     (deref64 L m \<noteq> Vl \<longrightarrow>
        fst (cmpxchg_jlong Nl L Vl ord solaris_sparc_il m) = deref64 L m \<and>
        snd (cmpxchg_jlong Nl L Vl ord solaris_sparc_il m) = m) \<and>
     (deref64 L m = Vl \<longrightarrow>
        fst (cmpxchg_ptr_intptr Nl L Vl ord solaris_sparc_il m) = Vl \<and>
        deref64 L (snd (cmpxchg_ptr_intptr Nl L Vl ord solaris_sparc_il m)) = Nl) \<and>
     (deref64 L m \<noteq> Vl \<longrightarrow>
        fst (cmpxchg_ptr_intptr Nl L Vl ord solaris_sparc_il m) = deref64 L m \<and>
        snd (cmpxchg_ptr_intptr Nl L Vl ord solaris_sparc_il m) = m) \<and>
     (deref_ptr (ptr_bits P) m = Vp \<longrightarrow>
        fst (cmpxchg_ptr_void Np P Vp ord solaris_sparc_il m) = Vp \<and>
        deref_ptr (ptr_bits P) (snd (cmpxchg_ptr_void Np P Vp ord solaris_sparc_il m)) = Np) \<and>
     (deref_ptr (ptr_bits P) m \<noteq> Vp \<longrightarrow>
        fst (cmpxchg_ptr_void Np P Vp ord solaris_sparc_il m) = deref_ptr (ptr_bits P) m \<and>
        snd (cmpxchg_ptr_void Np P Vp ord solaris_sparc_il m) = m)"
  by (simp add: cmpxchg_jint_il cmpxchg_jlong_il cmpxchg_ptr_intptr_il cmpxchg_ptr_void_il
      deref32_assign32 deref64_assign64 deref_ptr_assign_ptr)


theorem cmpxchg_returns_prior_contents_witness:
  "deref32 0x1000 (store_jint 41 0x1000 zero_memory) = 41 \<and>
   fst (cmpxchg_jint 5 0x1000 41 (0::nat) solaris_sparc_il (store_jint 41 0x1000 zero_memory)) = 41 \<and>
   deref32 0x1000
     (snd (cmpxchg_jint 5 0x1000 41 (0::nat) solaris_sparc_il (store_jint 41 0x1000 zero_memory))) = 5 \<and>
   deref32 0x1000 (store_jint 41 0x1000 zero_memory) \<noteq> 7 \<and>
   fst (cmpxchg_jint 5 0x1000 7 (0::nat) solaris_sparc_il (store_jint 41 0x1000 zero_memory)) = 41 \<and>
   snd (cmpxchg_jint 5 0x1000 7 (0::nat) solaris_sparc_il (store_jint 41 0x1000 zero_memory)) =
     store_jint 41 0x1000 zero_memory \<and>
   deref64 0x1000 (store_jlong 41 0x1000 zero_memory) = 41 \<and>
   fst (cmpxchg_jlong 5 0x1000 41 (0::nat) solaris_sparc_il (store_jlong 41 0x1000 zero_memory)) = 41 \<and>
   deref64 0x1000
     (snd (cmpxchg_jlong 5 0x1000 41 (0::nat) solaris_sparc_il (store_jlong 41 0x1000 zero_memory))) = 5 \<and>
   fst (cmpxchg_ptr_intptr 5 0x1000 41 (0::nat) solaris_sparc_il (store_jlong 41 0x1000 zero_memory)) = 41 \<and>
   deref64 0x1000
     (snd (cmpxchg_ptr_intptr 5 0x1000 41 (0::nat) solaris_sparc_il
        (store_jlong 41 0x1000 zero_memory))) = 5 \<and>
   deref64 0x1000 (store_jlong 41 0x1000 zero_memory) \<noteq> 7 \<and>
   fst (cmpxchg_jlong 5 0x1000 7 (0::nat) solaris_sparc_il (store_jlong 41 0x1000 zero_memory)) = 41 \<and>
   snd (cmpxchg_jlong 5 0x1000 7 (0::nat) solaris_sparc_il (store_jlong 41 0x1000 zero_memory)) =
     store_jlong 41 0x1000 zero_memory \<and>
   fst (cmpxchg_ptr_intptr 5 0x1000 7 (0::nat) solaris_sparc_il (store_jlong 41 0x1000 zero_memory)) = 41 \<and>
   snd (cmpxchg_ptr_intptr 5 0x1000 7 (0::nat) solaris_sparc_il (store_jlong 41 0x1000 zero_memory)) =
     store_jlong 41 0x1000 zero_memory \<and>
   deref_ptr 0x1000 (store_jlong 41 0x1000 zero_memory) = VoidPtr 41 \<and>
   fst (cmpxchg_ptr_void (VoidPtr 5) (VoidPtr 0x1000) (VoidPtr 41) (0::nat) solaris_sparc_il
     (store_jlong 41 0x1000 zero_memory)) = VoidPtr 41 \<and>
   deref_ptr 0x1000
     (snd (cmpxchg_ptr_void (VoidPtr 5) (VoidPtr 0x1000) (VoidPtr 41) (0::nat) solaris_sparc_il
        (store_jlong 41 0x1000 zero_memory))) = VoidPtr 5 \<and>
   deref_ptr 0x1000 (store_jlong 41 0x1000 zero_memory) \<noteq> VoidPtr 7 \<and>
   fst (cmpxchg_ptr_void (VoidPtr 5) (VoidPtr 0x1000) (VoidPtr 7) (0::nat) solaris_sparc_il
     (store_jlong 41 0x1000 zero_memory)) = VoidPtr 41 \<and>
   snd (cmpxchg_ptr_void (VoidPtr 5) (VoidPtr 0x1000) (VoidPtr 7) (0::nat) solaris_sparc_il
     (store_jlong 41 0x1000 zero_memory)) = store_jlong 41 0x1000 zero_memory"
proof -
  let ?mi = "store_jint 41 0x1000 zero_memory"
  let ?ml = "store_jlong 41 0x1000 zero_memory"
  have i: "deref32 0x1000 ?mi = 41" "deref32 0x1000 ?mi \<noteq> 7"
    by (simp_all add: store_jint_def deref32_assign32)
  have l: "deref64 0x1000 ?ml = 41" "deref64 0x1000 ?ml \<noteq> 7"
    by (simp_all add: store_jlong_def deref64_assign64)
  have p: "deref_ptr (ptr_bits (VoidPtr 0x1000)) ?ml = VoidPtr 41"
    "deref_ptr (ptr_bits (VoidPtr 0x1000)) ?ml \<noteq> VoidPtr 7"
    by (simp_all add: deref_ptr_def l)
  note hit = cmpxchg_returns_prior_contents
    [where L = "0x1000" and Vi = 41 and Ni = 5 and Vl = 41 and Nl = 5 and P = "VoidPtr 0x1000"
       and Vp = "VoidPtr 41" and Np = "VoidPtr 5" and ord = "0::nat"]
  note miss = cmpxchg_returns_prior_contents
    [where L = "0x1000" and Vi = 7 and Ni = 5 and Vl = 7 and Nl = 5 and P = "VoidPtr 0x1000"
       and Vp = "VoidPtr 7" and Np = "VoidPtr 5" and ord = "0::nat"]
  from hit [of ?mi] miss [of ?mi] hit [of ?ml] miss [of ?ml] i l p show ?thesis
    by simp
qed

text \<open>
  C2. With the primitives of \<^verbatim>\<open>solaris_sparc.il\<close>, \<^verbatim>\<open>xchg\<close> and both overloads of
  \<^verbatim>\<open>xchg_ptr\<close> return the contents the location had before the call, whatever they were,
  and leave the location holding the new value.
\<close>

theorem xchg_returns_prior_contents:
  "fst (xchg Ni L solaris_sparc_il m) = deref32 L m \<and>
   deref32 L (snd (xchg Ni L solaris_sparc_il m)) = Ni \<and>
   fst (xchg_ptr_intptr Nl L solaris_sparc_il m) = deref64 L m \<and>
   deref64 L (snd (xchg_ptr_intptr Nl L solaris_sparc_il m)) = Nl \<and>
   fst (xchg_ptr_void Np P solaris_sparc_il m) = deref_ptr (ptr_bits P) m \<and>
   deref_ptr (ptr_bits P) (snd (xchg_ptr_void Np P solaris_sparc_il m)) = Np"
  by (simp add: xchg_def xchg_ptr_intptr_def xchg_ptr_void_def solaris_sparc_il_sel
      il_swap32_def il_swap64_def deref32_assign32 deref64_assign64 deref_ptr_def)

text \<open>
  C3. With the primitives of \<^verbatim>\<open>solaris_sparc.il\<close>, \<^verbatim>\<open>add\<close> and both overloads of
  \<^verbatim>\<open>add_ptr\<close> leave the location holding its old value plus the delta and return that
  sum, not the old value.
\<close>

theorem add_returns_sum:
  "fst (add Di L solaris_sparc_il m) = deref32 L m + Di \<and>
   deref32 L (snd (add Di L solaris_sparc_il m)) = deref32 L m + Di \<and>
   fst (add_ptr_intptr Dl L solaris_sparc_il m) = deref64 L m + Dl \<and>
   deref64 L (snd (add_ptr_intptr Dl L solaris_sparc_il m)) = deref64 L m + Dl \<and>
   fst (add_ptr_void Dl P solaris_sparc_il m) = VoidPtr (ptr_bits (deref_ptr (ptr_bits P) m) + Dl) \<and>
   deref_ptr (ptr_bits P) (snd (add_ptr_void Dl P solaris_sparc_il m)) =
     VoidPtr (ptr_bits (deref_ptr (ptr_bits P) m) + Dl)"
  by (simp add: add_def add_ptr_intptr_def add_ptr_void_def solaris_sparc_il_sel
      il_add32_def il_add64_def deref32_assign32 deref64_assign64 deref_ptr_def Let_def)

section \<open>Forwarding\<close>

text \<open>
  C4. Whatever the primitives do, \<^verbatim>\<open>inc\<close> and \<^verbatim>\<open>inc_ptr\<close> leave the memory that
  \<^verbatim>\<open>add\<close> and \<^verbatim>\<open>add_ptr\<close> with delta 1 leave, and \<^verbatim>\<open>dec\<close> and \<^verbatim>\<open>dec_ptr\<close> the memory
  that delta -1 leaves, for the 32-bit, the pointer-width and the raw-pointer overload; only
  the returned value is dropped.
\<close>

theorem inc_dec_as_add:
  "inc L hw m = snd (add 1 L hw m) \<and>
   dec L hw m = snd (add (- 1) L hw m) \<and>
   inc_ptr_intptr L hw m = snd (add_ptr_intptr 1 L hw m) \<and>
   dec_ptr_intptr L hw m = snd (add_ptr_intptr (- 1) L hw m) \<and>
   inc_ptr_void P hw m = snd (add_ptr_void 1 P hw m) \<and>
   dec_ptr_void P hw m = snd (add_ptr_void (- 1) P hw m)"
  by (simp add: inc_def dec_def inc_ptr_intptr_def dec_ptr_intptr_def inc_ptr_void_def
      dec_ptr_void_def int_to_intptr_literals)

text \<open>
  C5. Whatever the primitives do, the raw-pointer overload of \<^verbatim>\<open>store_ptr\<close>,
  \<^verbatim>\<open>add_ptr\<close>, \<^verbatim>\<open>xchg_ptr\<close>, \<^verbatim>\<open>cmpxchg_ptr\<close>, \<^verbatim>\<open>inc_ptr\<close> and \<^verbatim>\<open>dec_ptr\<close> returns
  the bits and leaves the memory that the pointer-width integer overload returns and leaves
  on the same bits.
\<close>

theorem pointer_overloads_as_intptr:
  fixes ord :: 'order
  shows
  "store_ptr_void Np P m = store_ptr_intptr (ptr_bits Np) (ptr_bits P) m \<and>
   store_ptr_void_volatile Np P m = store_ptr_intptr_volatile (ptr_bits Np) (ptr_bits P) m \<and>
   ptr_bits (fst (add_ptr_void D P hw m)) = fst (add_ptr_intptr D (ptr_bits P) hw m) \<and>
   snd (add_ptr_void D P hw m) = snd (add_ptr_intptr D (ptr_bits P) hw m) \<and>
   ptr_bits (fst (xchg_ptr_void Np P hw m)) = fst (xchg_ptr_intptr (ptr_bits Np) (ptr_bits P) hw m) \<and>
   snd (xchg_ptr_void Np P hw m) = snd (xchg_ptr_intptr (ptr_bits Np) (ptr_bits P) hw m) \<and>
   ptr_bits (fst (cmpxchg_ptr_void Np P Vp ord hw m)) =
     fst (cmpxchg_ptr_intptr (ptr_bits Np) (ptr_bits P) (ptr_bits Vp) ord hw m) \<and>
   snd (cmpxchg_ptr_void Np P Vp ord hw m) =
     snd (cmpxchg_ptr_intptr (ptr_bits Np) (ptr_bits P) (ptr_bits Vp) ord hw m) \<and>
   inc_ptr_void P hw m = inc_ptr_intptr (ptr_bits P) hw m \<and>
   dec_ptr_void P hw m = dec_ptr_intptr (ptr_bits P) hw m"
  by (simp add: store_ptr_void_def store_ptr_intptr_def store_ptr_void_volatile_def
      store_ptr_intptr_volatile_def assign_ptr_def add_ptr_void_def xchg_ptr_void_def
      cmpxchg_ptr_void_def inc_ptr_void_def inc_ptr_intptr_def dec_ptr_void_def
      dec_ptr_intptr_def split_def)

text \<open>
  C6. Two calls of a \<^verbatim>\<open>cmpxchg\<close> or \<^verbatim>\<open>cmpxchg_ptr\<close> overload that differ only in the
  ordering hint return the same value and leave the same memory, whatever the primitives
  do.
\<close>

theorem cmpxchg_order_ignored:
  fixes order1 order2 :: 'order
  shows
  "cmpxchg_jint Ni L Vi order1 hw m = cmpxchg_jint Ni L Vi order2 hw m \<and>
   cmpxchg_jlong Nl L Vl order1 hw m = cmpxchg_jlong Nl L Vl order2 hw m \<and>
   cmpxchg_ptr_intptr Nl L Vl order1 hw m = cmpxchg_ptr_intptr Nl L Vl order2 hw m \<and>
   cmpxchg_ptr_void Np P Vp order1 hw m = cmpxchg_ptr_void Np P Vp order2 hw m"
  by (simp add: cmpxchg_jint_def cmpxchg_jlong_def cmpxchg_ptr_intptr_def cmpxchg_ptr_void_def)

section \<open>Stores, loads and boundary values\<close>

text \<open>
  C7. A 64-bit store followed by a load of the same location, with no write in between,
  returns the value stored. Both \<^verbatim>\<open>jlong\<close> overloads of \<^verbatim>\<open>store\<close> are covered.
\<close>

theorem store_load_roundtrip:
  "load L (store_jlong N L m) = N \<and> load L (store_jlong_volatile N L m) = N"
  by (simp add: load_def store_jlong_def store_jlong_volatile_def deref64_assign64)

text \<open>
  C8. The largest and the smallest value of each width come back unchanged when the
  location is read after a store (through \<^verbatim>\<open>load\<close> for \<^verbatim>\<open>jlong\<close>, the only width with a
  load in the file, and through a plain read otherwise). With the primitives of
  \<^verbatim>\<open>solaris_sparc.il\<close>, \<^verbatim>\<open>add\<close> wraps modulo \<open>2 ^ 32\<close> and \<^verbatim>\<open>add_ptr\<close> modulo \<open>2 ^ 64\<close>:
  one more than the largest value is the smallest, one less than the smallest the largest.
\<close>

theorem boundary_values_and_wraparound:
  "sint (deref8 L (store_jbyte 0x7F L m)) = 2 ^ 7 - 1 \<and>
   sint (deref8 L (store_jbyte (- 0x80) L m)) = - (2 ^ 7) \<and>
   sint (deref8 L (store_jbyte_volatile 0x7F L m)) = 2 ^ 7 - 1 \<and>
   sint (deref8 L (store_jbyte_volatile (- 0x80) L m)) = - (2 ^ 7) \<and>
   sint (deref16 L (store_jshort 0x7FFF L m)) = 2 ^ 15 - 1 \<and>
   sint (deref16 L (store_jshort (- 0x8000) L m)) = - (2 ^ 15) \<and>
   sint (deref16 L (store_jshort_volatile 0x7FFF L m)) = 2 ^ 15 - 1 \<and>
   sint (deref16 L (store_jshort_volatile (- 0x8000) L m)) = - (2 ^ 15) \<and>
   sint (deref32 L (store_jint 0x7FFFFFFF L m)) = 2 ^ 31 - 1 \<and>
   sint (deref32 L (store_jint (- 0x80000000) L m)) = - (2 ^ 31) \<and>
   sint (deref32 L (store_jint_volatile 0x7FFFFFFF L m)) = 2 ^ 31 - 1 \<and>
   sint (deref32 L (store_jint_volatile (- 0x80000000) L m)) = - (2 ^ 31) \<and>
   sint (load L (store_jlong 0x7FFFFFFFFFFFFFFF L m)) = 2 ^ 63 - 1 \<and>
   sint (load L (store_jlong (- 0x8000000000000000) L m)) = - (2 ^ 63) \<and>
   sint (load L (store_jlong_volatile 0x7FFFFFFFFFFFFFFF L m)) = 2 ^ 63 - 1 \<and>
   sint (load L (store_jlong_volatile (- 0x8000000000000000) L m)) = - (2 ^ 63) \<and>
   sint (deref64 L (store_ptr_intptr 0x7FFFFFFFFFFFFFFF L m)) = 2 ^ 63 - 1 \<and>
   sint (deref64 L (store_ptr_intptr (- 0x8000000000000000) L m)) = - (2 ^ 63) \<and>
   sint (deref64 L (store_ptr_intptr_volatile 0x7FFFFFFFFFFFFFFF L m)) = 2 ^ 63 - 1 \<and>
   sint (deref64 L (store_ptr_intptr_volatile (- 0x8000000000000000) L m)) = - (2 ^ 63) \<and>
   uint (ptr_bits (deref_ptr (ptr_bits P) (store_ptr_void (VoidPtr 0xFFFFFFFFFFFFFFFF) P m))) =
     2 ^ 64 - 1 \<and>
   uint (ptr_bits (deref_ptr (ptr_bits P) (store_ptr_void (VoidPtr 0) P m))) = 0 \<and>
   uint (ptr_bits (deref_ptr (ptr_bits P)
     (store_ptr_void_volatile (VoidPtr 0xFFFFFFFFFFFFFFFF) P m))) = 2 ^ 64 - 1 \<and>
   uint (ptr_bits (deref_ptr (ptr_bits P) (store_ptr_void_volatile (VoidPtr 0) P m))) = 0 \<and>
   uint (fst (add Di L solaris_sparc_il m)) = (uint (deref32 L m) + uint Di) mod 2 ^ 32 \<and>
   uint (deref32 L (snd (add Di L solaris_sparc_il m))) =
     (uint (deref32 L m) + uint Di) mod 2 ^ 32 \<and>
   uint (fst (add_ptr_intptr Dl L solaris_sparc_il m)) =
     (uint (deref64 L m) + uint Dl) mod 2 ^ 64 \<and>
   uint (deref64 L (snd (add_ptr_intptr Dl L solaris_sparc_il m))) =
     (uint (deref64 L m) + uint Dl) mod 2 ^ 64 \<and>
   uint (ptr_bits (fst (add_ptr_void Dl P solaris_sparc_il m))) =
     (uint (ptr_bits (deref_ptr (ptr_bits P) m)) + uint Dl) mod 2 ^ 64 \<and>
   uint (ptr_bits (deref_ptr (ptr_bits P) (snd (add_ptr_void Dl P solaris_sparc_il m)))) =
     (uint (ptr_bits (deref_ptr (ptr_bits P) m)) + uint Dl) mod 2 ^ 64 \<and>
   sint (deref32 L (snd (add 1 L solaris_sparc_il (store_jint_volatile 0x7FFFFFFF L m)))) =
     - (2 ^ 31) \<and>
   sint (deref32 L (snd (add (- 1) L solaris_sparc_il
     (store_jint_volatile (- 0x80000000) L m)))) = 2 ^ 31 - 1 \<and>
   sint (deref64 L (snd (add_ptr_intptr 1 L solaris_sparc_il
     (store_ptr_intptr_volatile 0x7FFFFFFFFFFFFFFF L m)))) = - (2 ^ 63) \<and>
   sint (deref64 L (snd (add_ptr_intptr (- 1) L solaris_sparc_il
     (store_ptr_intptr_volatile (- 0x8000000000000000) L m)))) = 2 ^ 63 - 1"
  by (simp add: store_deref load_def add_il add_ptr_intptr_il add_ptr_void_il deref32_assign32
      deref64_assign64 ptr_bits_deref_ptr store_ptr_void_deref64 uint_word_ariths)

section \<open>The 64-bit compare-and-swap and the pointer step\<close>

text \<open>
  C9. The \<^verbatim>\<open>jlong\<close> overload of \<^verbatim>\<open>cmpxchg\<close> is one call of \<^verbatim>\<open>_Atomic_cas64\<close> on its own
  arguments, so it returns what the pointer-width \<^verbatim>\<open>cmpxchg_ptr\<close> returns and leaves the
  memory it leaves. No operation calls \<^verbatim>\<open>_Atomic_casl\<close>: replacing that primitive by any
  other function changes the result of none of them.
\<close>

theorem cmpxchg_jlong_as_cas64:
  fixes ord :: 'order
  shows
  "cmpxchg_jlong N L V ord hw m = Atomic_cas64 hw N L V m \<and>
   cmpxchg_jlong N L V ord hw m = cmpxchg_ptr_intptr N L V ord hw m \<and>
   add Di L (hw\<lparr>Atomic_casl := f\<rparr>) m = add Di L hw m \<and>
   add_ptr_intptr D L (hw\<lparr>Atomic_casl := f\<rparr>) m = add_ptr_intptr D L hw m \<and>
   add_ptr_void D P (hw\<lparr>Atomic_casl := f\<rparr>) m = add_ptr_void D P hw m \<and>
   inc L (hw\<lparr>Atomic_casl := f\<rparr>) m = inc L hw m \<and>
   inc_ptr_intptr L (hw\<lparr>Atomic_casl := f\<rparr>) m = inc_ptr_intptr L hw m \<and>
   inc_ptr_void P (hw\<lparr>Atomic_casl := f\<rparr>) m = inc_ptr_void P hw m \<and>
   dec L (hw\<lparr>Atomic_casl := f\<rparr>) m = dec L hw m \<and>
   dec_ptr_intptr L (hw\<lparr>Atomic_casl := f\<rparr>) m = dec_ptr_intptr L hw m \<and>
   dec_ptr_void P (hw\<lparr>Atomic_casl := f\<rparr>) m = dec_ptr_void P hw m \<and>
   xchg Ni L (hw\<lparr>Atomic_casl := f\<rparr>) m = xchg Ni L hw m \<and>
   xchg_ptr_intptr N L (hw\<lparr>Atomic_casl := f\<rparr>) m = xchg_ptr_intptr N L hw m \<and>
   xchg_ptr_void Np P (hw\<lparr>Atomic_casl := f\<rparr>) m = xchg_ptr_void Np P hw m \<and>
   cmpxchg_jint Ni L Vi ord (hw\<lparr>Atomic_casl := f\<rparr>) m = cmpxchg_jint Ni L Vi ord hw m \<and>
   cmpxchg_jlong N L V ord (hw\<lparr>Atomic_casl := f\<rparr>) m = cmpxchg_jlong N L V ord hw m \<and>
   cmpxchg_ptr_intptr N L V ord (hw\<lparr>Atomic_casl := f\<rparr>) m = cmpxchg_ptr_intptr N L V ord hw m \<and>
   cmpxchg_ptr_void Np P Vp ord (hw\<lparr>Atomic_casl := f\<rparr>) m = cmpxchg_ptr_void Np P Vp ord hw m"
  by (simp add: cmpxchg_jlong_def cmpxchg_ptr_intptr_def cmpxchg_jint_def cmpxchg_ptr_void_def
      add_def add_ptr_intptr_def add_ptr_void_def inc_def inc_ptr_intptr_def inc_ptr_void_def
      dec_def dec_ptr_intptr_def dec_ptr_void_def xchg_def xchg_ptr_intptr_def xchg_ptr_void_def)

text \<open>
  C10. On a \<^verbatim>\<open>void*\<close> location \<^verbatim>\<open>inc_ptr\<close> and \<^verbatim>\<open>dec_ptr\<close> hand the deltas 1 and -1
  to \<^verbatim>\<open>_Atomic_add64\<close> unscaled, on the location read as a pointer-width integer; with the
  primitives of \<^verbatim>\<open>solaris_sparc.il\<close> the bits of the stored pointer change by exactly
  +1 and -1.
\<close>

theorem inc_dec_ptr_void_step:
  "inc_ptr_void P hw m = snd (Atomic_add64 hw 1 (ptr_bits P) m) \<and>
   dec_ptr_void P hw m = snd (Atomic_add64 hw (- 1) (ptr_bits P) m) \<and>
   ptr_bits (deref_ptr (ptr_bits P) (inc_ptr_void P solaris_sparc_il m)) =
     ptr_bits (deref_ptr (ptr_bits P) m) + 1 \<and>
   ptr_bits (deref_ptr (ptr_bits P) (dec_ptr_void P solaris_sparc_il m)) =
     ptr_bits (deref_ptr (ptr_bits P) m) - 1 \<and>
   uint (ptr_bits (deref_ptr (ptr_bits P) (inc_ptr_void P solaris_sparc_il m))) =
     (uint (ptr_bits (deref_ptr (ptr_bits P) m)) + 1) mod 2 ^ 64 \<and>
   uint (ptr_bits (deref_ptr (ptr_bits P) (dec_ptr_void P solaris_sparc_il m))) =
     (uint (ptr_bits (deref_ptr (ptr_bits P) m)) - 1) mod 2 ^ 64"
  by (simp add: inc_dec_ptr_void_prim solaris_sparc_il_sel il_add64_def Let_def
      ptr_bits_deref_ptr deref64_assign64 uint_word_ariths)

end
